theory Spec2Isabelle
  imports Main "HOL-Library.Word"
begin

unbundle bit_operations_syntax

section \<open>Machine types and protocol constants\<close>

type_synonym u8 = "8 word"
type_synonym u32 = "32 word"

text \<open>
  Modelled from the spec: the header \<^verbatim>\<open>bootloader.h\<close> that declares the protocol bytes
  is not among the sources; the values are those of the table of symbolic byte constants
  in the section on the protocol engine.
\<close>

definition SYNCH :: u8 where "SYNCH = 0x7F"
definition ACK :: u8 where "ACK = 0x79"
definition NACK :: u8 where "NACK = 0x1F"
definition GET :: u8 where "GET = 0x00"
definition READ :: u8 where "READ = 0x11"
definition GO :: u8 where "GO = 0x21"
definition WRITE :: u8 where "WRITE = 0x31"
definition ERASE :: u8 where "ERASE = 0x43"

section \<open>The serial line as seen through the Posix calls\<close>

text \<open>
  The Posix branches of \<^verbatim>\<open>serial_comm.c\<close> are modelled. The kernel's settings of the line
  are a \<open>termios\<close> record; only the fields the program touches are kept. The line
  speed, which the program reaches only through \<^verbatim>\<open>cfsetispeed\<close>, \<^verbatim>\<open>cfsetospeed\<close> and
  \<^verbatim>\<open>cfgetospeed\<close>, is kept in the two fields \<open>c_ispeed\<close> and \<open>c_ospeed\<close>. The flag values
  are the ones of the Linux headers (\<^verbatim>\<open>asm-generic/termbits.h\<close>, \<^verbatim>\<open>asm-generic/ioctls.h\<close>),
  which are not part of the repository.
\<close>

record termios =
  c_iflag :: u32
  c_oflag :: u32
  c_cflag :: u32
  c_lflag :: u32
  c_vmin :: u8
  c_vtime :: u8
  c_ispeed :: u32
  c_ospeed :: u32

text \<open>
  What the line does next is a script. \<open>Ready d r\<close>: the descriptor becomes readable
  \<open>d\<close> milliseconds after the program starts to wait, and the \<^verbatim>\<open>read\<close> that follows yields
  \<open>r\<close>. \<open>Fault d\<close>: \<^verbatim>\<open>select\<close> returns an error after \<open>d\<close> milliseconds. An empty script is
  a silent line. Bytes that have arrived and have not been read wait in the input queue
  \<open>rxbuf\<close>. A \<^verbatim>\<open>write\<close> takes its answer from a second script; when that one is empty the
  whole buffer is accepted.
\<close>

datatype read_result = Data "u8 list" | Eagain | Eio

datatype os_event = Ready nat read_result | Fault nat

datatype write_result = Written nat | WriteErr

text \<open>The wire trace: the bytes handed over by each \<^verbatim>\<open>write\<close>, and the request and the
  yield of each call of \<open>receive_port\<close>.

  The port: \<open>fd\<close> is the handle, 0 when the port is not open; \<open>tc_ok\<close> tells whether
  \<^verbatim>\<open>tcgetattr\<close> and \<^verbatim>\<open>tcsetattr\<close> succeed on it, \<open>ioctl_ok\<close> whether
  \<^verbatim>\<open>ioctl(fpCom, TIOCMSET, ...)\<close> does; \<open>modem\<close> holds the modem-control bits; \<open>clock\<close>
  counts the milliseconds the program has spent waiting and sleeping.\<close>

datatype event = Sent "u8 list" | Recv nat "u8 list"

record port =
  fd :: nat
  tc_ok :: bool
  ioctl_ok :: bool
  tio :: termios
  modem :: u32
  rxbuf :: "u8 list"
  incoming :: "os_event list"
  writes :: "write_result list"
  clock :: nat
  trace :: "event list"

text \<open>
  The ways a routine ends the process, named after the taxonomy of the specification:
  \<open>NotOpen\<close> for "port not open"; \<open>ConfigFailed\<close> for a failure to get or set the port
  attributes; \<open>SendShort\<close> for "sending ... failed"; \<open>Timeout\<close> for "ACK timeout" and "data
  timeout"; \<open>UnexpectedByte expected got\<close> for "ACK failure" and for a wrong command code in
  the GET response; \<open>SyncFailed\<close> for the two exits of \<^verbatim>\<open>bsl_sync\<close>, with the byte of "wrong
  response" or with nothing for "no response"; \<open>DeviceNotIdentified\<close> for "cannot identify
  device"; \<open>ProtocolViolation\<close> for the failed check of the two acknowledge bytes of the GET
  response; \<open>BufferOverrun\<close> for an access beyond the end of the caller's buffer, which C
  leaves undefined.
\<close>

datatype error =
    NotOpen
  | ConfigFailed
  | SendShort
  | Timeout
  | UnexpectedByte u8 u8
  | SyncFailed "u8 option"
  | DeviceNotIdentified
  | ProtocolViolation
  | BufferOverrun

type_synonym 'a res = "(error \<times> port) + ('a \<times> port)"

subsection \<open>\<^verbatim>\<open>set_timeout\<close>, \<^verbatim>\<open>flush_port\<close>, \<^verbatim>\<open>send_port\<close>\<close>

text \<open>\<^verbatim>\<open>set_timeout\<close>: \<^verbatim>\<open>c_cc[VMIN] = 255; c_cc[VTIME] = timeout/100\<close>, the quotient stored
  in an unsigned char.\<close>

definition set_timeout :: "port \<Rightarrow> u32 \<Rightarrow> (error \<times> port) + port" where
  "set_timeout p timeout =
     (if \<not> tc_ok p then Inl (ConfigFailed, p)
      else Inr (p\<lparr>tio := (tio p)\<lparr>c_vmin := 255, c_vtime := ucast (timeout div 100)\<rparr>\<rparr>))"

text \<open>\<^verbatim>\<open>tcflush(fpCom, TCIOFLUSH)\<close> discards what has arrived and has not been read.\<close>

definition flush_port :: "port \<Rightarrow> port" where
  "flush_port p = p\<lparr>rxbuf := []\<rparr>"

definition SLEEP :: "nat \<Rightarrow> port \<Rightarrow> port" where
  "SLEEP ms p = p\<lparr>clock := clock p + ms\<rparr>"

text \<open>\<^verbatim>\<open>send_port\<close> returns what \<^verbatim>\<open>write\<close> returned. Every caller stores the result
  in an \<^verbatim>\<open>int\<close>, where the error value of \<^verbatim>\<open>write\<close> reads \<open>-1\<close> again; the model returns
  that \<^verbatim>\<open>int\<close>.\<close>

definition send_port :: "port \<Rightarrow> u8 list \<Rightarrow> int \<times> port" where
  "send_port p Tx =
     (case writes p of
        [] \<Rightarrow> (int (length Tx), p\<lparr>trace := trace p @ [Sent Tx]\<rparr>)
      | Written k # ws \<Rightarrow>
          (int (min k (length Tx)),
           p\<lparr>writes := ws, trace := trace p @ [Sent (take k Tx)]\<rparr>)
      | WriteErr # ws \<Rightarrow> (- 1, p\<lparr>writes := ws\<rparr>))"

subsection \<open>\<^verbatim>\<open>receive_port\<close>\<close>

text \<open>
  The loop \<^verbatim>\<open>while (remaining)\<close>. Each round arms \<^verbatim>\<open>select\<close> with the full timeout
  (\<^verbatim>\<open>tv\<close> is rebuilt from \<^verbatim>\<open>timeout\<close> at the top of the body) and returns what has been
  read so far when \<^verbatim>\<open>select\<close> does not report exactly one ready descriptor. Otherwise it
  reads at most \<open>remaining\<close> bytes; \<^verbatim>\<open>EAGAIN\<close> and a read of zero bytes go round again,
  any other read error returns. The result is the bytes stored in \<^verbatim>\<open>Rx\<close>, the bytes that
  arrived beyond the request (they stay in the input queue), the script that is left, the
  time each \<^verbatim>\<open>select\<close> has waited, and the way the loop ended: \<open>Complete\<close> for the
  \<^verbatim>\<open>return(lenRx)\<close> after the loop, \<open>TimedOut\<close> and \<open>SelectFailed\<close> for the return after
  \<^verbatim>\<open>select\<close>, \<open>ReadFailed\<close> for the return after \<^verbatim>\<open>read\<close>.
\<close>

datatype rx_end = Complete | TimedOut | SelectFailed | ReadFailed

fun rx_loop :: "nat \<Rightarrow> nat \<Rightarrow> u8 list \<Rightarrow> nat list \<Rightarrow> os_event list
                 \<Rightarrow> u8 list \<times> u8 list \<times> os_event list \<times> nat list \<times> rx_end" where
  "rx_loop timeout 0 got waits evs = (got, [], evs, waits, Complete)"
| "rx_loop timeout (Suc r) got waits [] = (got, [], [], waits @ [timeout], TimedOut)"
| "rx_loop timeout (Suc r) got waits (Fault d # evs) =
     (if d \<le> timeout then (got, [], evs, waits @ [d], SelectFailed)
      else (got, [], Fault (d - timeout) # evs, waits @ [timeout], TimedOut))"
| "rx_loop timeout (Suc r) got waits (Ready d rr # evs) =
     (if timeout < d then (got, [], Ready (d - timeout) rr # evs, waits @ [timeout], TimedOut)
      else case rr of
          Eagain \<Rightarrow> rx_loop timeout (Suc r) got (waits @ [d]) evs
        | Eio \<Rightarrow> (got, [], evs, waits @ [d], ReadFailed)
        | Data bs \<Rightarrow>
            if length bs \<le> Suc r
            then rx_loop timeout (Suc r - length bs) (got @ bs) (waits @ [d]) evs
            else (got @ take (Suc r) bs, drop (Suc r) bs, evs, waits @ [d], Complete))"

text \<open>\<^verbatim>\<open>receive_port\<close> reads the timeout back from the line settings
  (\<^verbatim>\<open>c_cc[VTIME] * 100\<close>) and runs the loop. A non-empty input queue makes the descriptor
  readable at once. The model returns the number of bytes received together with those
  bytes.\<close>

definition rx_script :: "port \<Rightarrow> os_event list" where
  "rx_script p = (if rxbuf p = [] then incoming p else Ready 0 (Data (rxbuf p)) # incoming p)"

definition receive_port :: "port \<Rightarrow> nat \<Rightarrow> (error \<times> port) + (nat \<times> u8 list \<times> port)" where
  "receive_port p lenRx =
     (if \<not> tc_ok p then Inl (ConfigFailed, p)
      else
        let timeout = unat (c_vtime (tio p)) * 100;
            (got, rest, evs, waits, why) = rx_loop timeout lenRx [] [] (rx_script p)
        in Inr (length got, got,
                p\<lparr>rxbuf := rest, incoming := evs, clock := clock p + sum_list waits,
                  trace := trace p @ [Recv lenRx got]\<rparr>))"

subsection \<open>\<^verbatim>\<open>set_port_attribute\<close> and \<^verbatim>\<open>get_port_attribute\<close>\<close>

text \<open>The flag and speed constants, with their Linux values.\<close>

definition CSIZE :: u32 where "CSIZE = 0x30"
definition CS7 :: u32 where "CS7 = 0x20"
definition CS8 :: u32 where "CS8 = 0x30"
definition CSTOPB :: u32 where "CSTOPB = 0x40"
definition CREAD :: u32 where "CREAD = 0x80"
definition PARENB :: u32 where "PARENB = 0x100"
definition CLOCAL :: u32 where "CLOCAL = 0x800"
definition CRTSCTS :: u32 where "CRTSCTS = 0x80000000"
definition IXON :: u32 where "IXON = 0x400"
definition IXANY :: u32 where "IXANY = 0x800"
definition IXOFF :: u32 where "IXOFF = 0x1000"
definition ISIG :: u32 where "ISIG = 0x01"
definition ICANON :: u32 where "ICANON = 0x02"
definition ECHO :: u32 where "ECHO = 0x08"
definition ECHOE :: u32 where "ECHOE = 0x10"
definition OPOST :: u32 where "OPOST = 0x01"
definition TIOCM_DTR :: u32 where "TIOCM_DTR = 0x002"
definition TIOCM_RTS :: u32 where "TIOCM_RTS = 0x004"
definition B4800 :: u32 where "B4800 = 12"
definition B9600 :: u32 where "B9600 = 13"
definition B19200 :: u32 where "B19200 = 14"
definition B38400 :: u32 where "B38400 = 15"
definition B57600 :: u32 where "B57600 = 4097"
definition B115200 :: u32 where "B115200 = 4098"

text \<open>The seven arguments of \<^verbatim>\<open>set_port_attribute\<close>, which are the seven results of
  \<^verbatim>\<open>get_port_attribute\<close>.\<close>

record attrs =
  baudrate :: u32
  timeout_ms :: u32
  numBits :: u8
  parity :: u8
  numStop :: u8
  RTS :: u8
  DTR :: u8

text \<open>The \<^verbatim>\<open>switch(baudrate)\<close> that picks the speed constant; any other value is passed
  on as it is. \<^verbatim>\<open>cfsetispeed\<close> and \<^verbatim>\<open>cfsetospeed\<close> store a speed that is one of the
  constants of the header and leave the settings alone otherwise (their result is not
  looked at).\<close>

definition baud_code :: "u32 \<Rightarrow> u32" where
  "baud_code baud =
     (if baud = 4800 then B4800
      else if baud = 9600 then B9600
      else if baud = 19200 then B19200
      else if baud = 38400 then B38400
      else if baud = 57600 then B57600
      else if baud = 115200 then B115200
      else baud)"

definition valid_speed :: "u32 \<Rightarrow> bool" where
  "valid_speed s = (s \<le> 15 \<or> (4097 \<le> s \<and> s \<le> 4111))"

definition cfsetspeed :: "termios \<Rightarrow> u32 \<Rightarrow> termios" where
  "cfsetspeed t brate =
     (if valid_speed brate then t\<lparr>c_ispeed := brate, c_ospeed := brate\<rparr> else t)"

text \<open>\<^verbatim>\<open>set_port_attribute\<close>, Posix branch. The parity argument is not used; the character
  size is or-ed in first and the whole \<^verbatim>\<open>CSIZE\<close> field cleared afterwards.\<close>

definition set_port_attribute :: "port \<Rightarrow> attrs \<Rightarrow> (error \<times> port) + port" where
  "set_port_attribute p a =
     (if \<not> tc_ok p then Inl (ConfigFailed, p)
      else
        let t0 = cfsetspeed (tio p) (baud_code (baudrate a));
            c1 = (if numBits a = 7 then c_cflag t0 OR CS7 else c_cflag t0 OR CS8);
            c2 = c1 AND NOT PARENB;
            c3 = (if numStop a = 1 then c2 AND NOT CSTOPB else c2 OR CSTOPB);
            c4 = c3 AND NOT CSIZE;
            c5 = c4 AND NOT CRTSCTS;
            c6 = c5 OR (CREAD OR CLOCAL);
            t1 = t0\<lparr>c_cflag := c6,
                     c_iflag := c_iflag t0 AND NOT (IXON OR IXOFF OR IXANY),
                     c_lflag := c_lflag t0 AND NOT (ICANON OR ECHO OR ECHOE OR ISIG),
                     c_oflag := c_oflag t0 AND NOT OPOST,
                     c_vmin := 255,
                     c_vtime := ucast (timeout_ms a div 100)\<rparr>;
            s0 = modem p;
            s1 = (if RTS a = 1 then s0 OR TIOCM_RTS else s0 AND NOT TIOCM_RTS);
            s2 = (if DTR a = 1 then s1 OR TIOCM_DTR else s1 AND NOT TIOCM_DTR)
        in if \<not> ioctl_ok p then Inl (ConfigFailed, p\<lparr>tio := t1\<rparr>)
           else Inr (p\<lparr>tio := t1, modem := s2\<rparr>))"

text \<open>\<^verbatim>\<open>get_port_attribute\<close>, Posix branch, with the operators as they stand in the
  source: \<^verbatim>\<open>c_cflag & CS8\<close>, \<^verbatim>\<open>c_cflag & PARENB\<close>, but \<^verbatim>\<open>c_cflag | CSTOPB\<close>,
  \<^verbatim>\<open>status | TIOCM_RTS\<close> and \<^verbatim>\<open>status | TIOCM_DTR\<close>. The result of
  \<^verbatim>\<open>ioctl(fpCom, TIOCMGET, &status)\<close> is not looked at. The cases \<^verbatim>\<open>B14400\<close> and
  \<^verbatim>\<open>B28800\<close> of the \<^verbatim>\<open>switch\<close> stand under \<^verbatim>\<open>#ifdef\<close>; the Linux headers do not define
  these two speeds.\<close>

definition get_port_attribute :: "port \<Rightarrow> (error \<times> port) + attrs" where
  "get_port_attribute p =
     (if \<not> tc_ok p then Inl (ConfigFailed, p)
      else
        let t = tio p;
            brate = c_ospeed t;
            status = modem p
        in Inr \<lparr>baudrate =
                 (if brate = B4800 then 4800
                  else if brate = B9600 then 9600
                  else if brate = B19200 then 19200
                  else if brate = B38400 then 38400
                  else if brate = B57600 then 57600
                  else if brate = B115200 then 115200
                  else 0xFFFFFFFF),
               timeout_ms = ucast (c_vtime t) * 100,
               numBits = (if c_cflag t AND CS8 \<noteq> 0 then 8 else 7),
               parity = (if c_cflag t AND PARENB \<noteq> 0 then 1 else 0),
               numStop = (if c_cflag t OR CSTOPB \<noteq> 0 then 2 else 1),
               RTS = (if status OR TIOCM_RTS \<noteq> 0 then 1 else 0),
               DTR = (if status OR TIOCM_DTR \<noteq> 0 then 1 else 0)\<rparr>)"

section \<open>The bootloader routines\<close>

text \<open>
  Every routine of \<^verbatim>\<open>bootloader.c\<close> ends the process with \<^verbatim>\<open>Exit(1, ...)\<close> on an error;
  the model returns the error together with the port as it is at that moment. The
  receive buffer \<^verbatim>\<open>Rx\<close> is read by the source only below the count that
  \<open>receive_port\<close> returned, so the model keeps the received bytes alone (the one read
  that could lie above the count is written out in \<open>read_chunk\<close>). What the routines
  print is not modelled.

  The idiom that every routine repeats: send a frame, leave when \<^verbatim>\<open>len != lenTx\<close>;
  receive \<open>lenRx\<close> bytes, leave when \<^verbatim>\<open>len != lenRx\<close>.
\<close>

definition transact :: "port \<Rightarrow> u8 list \<Rightarrow> nat \<Rightarrow> (u8 list) res" where
  "transact p Tx lenRx =
     (case send_port p Tx of (len, p1) \<Rightarrow>
        if len \<noteq> int (length Tx) then Inl (SendShort, p1)
        else (case receive_port p1 lenRx of
            Inl e \<Rightarrow> Inl e
          | Inr (len, Rx, p2) \<Rightarrow>
              if len \<noteq> lenRx then Inl (Timeout, p2) else Inr (Rx, p2)))"

text \<open>The address frame: four bytes, most significant first, and their XOR.\<close>

definition encode_addr :: "u32 \<Rightarrow> u8 list" where
  "encode_addr addr =
     (let t0 = ucast (drop_bit 24 addr) :: u8;
          t1 = ucast (drop_bit 16 addr) :: u8;
          t2 = ucast (drop_bit 8 addr) :: u8;
          t3 = ucast addr :: u8
      in [t0, t1, t2, t3, t0 XOR t1 XOR t2 XOR t3])"

subsection \<open>\<^verbatim>\<open>bsl_memCheck\<close>\<close>

definition bsl_memCheck :: "port \<Rightarrow> u32 \<Rightarrow> bool res" where
  "bsl_memCheck p addr =
     (if fd p = 0 then Inl (NotOpen, p)
      else (case transact p [READ, READ XOR 0xFF] 1 of
          Inl e \<Rightarrow> Inl e
        | Inr (Rx, p1) \<Rightarrow>
            if Rx ! 0 \<noteq> ACK then Inl (UnexpectedByte ACK (Rx ! 0), p1)
            else (case transact p1 (encode_addr addr) 1 of
                Inl e \<Rightarrow> Inl e
              | Inr (Rx, p2) \<Rightarrow>
                  if Rx ! 0 \<noteq> ACK then Inr (False, p2)
                  else (case transact p2 [1 - 1, (1 - 1) XOR 0xFF] 2 of
                      Inl e \<Rightarrow> Inl e
                    | Inr (Rx, p3) \<Rightarrow>
                        if Rx ! 0 \<noteq> ACK then Inl (UnexpectedByte ACK (Rx ! 0), p3)
                        else Inr (True, p3)))))"

subsection \<open>\<^verbatim>\<open>bsl_getInfo\<close>\<close>

text \<open>The chain of \<^verbatim>\<open>if (bsl_memCheck(...)) ... else if ...\<close> that sets \<^verbatim>\<open>*flashsize\<close>.\<close>

definition probe_density :: "port \<Rightarrow> int res" where
  "probe_density p =
     (case bsl_memCheck p 0x047FFF of
        Inl e \<Rightarrow> Inl e
      | Inr (b1, p1) \<Rightarrow>
          if b1 then Inr (256, p1)
          else (case bsl_memCheck p1 0x027FFF of
              Inl e \<Rightarrow> Inl e
            | Inr (b2, p2) \<Rightarrow>
                if b2 then Inr (128, p2)
                else (case bsl_memCheck p2 0x00FFFF of
                    Inl e \<Rightarrow> Inl e
                  | Inr (b3, p3) \<Rightarrow>
                      if b3 then Inr (32, p3)
                      else (case bsl_memCheck p3 0x009FFF of
                          Inl e \<Rightarrow> Inl e
                        | Inr (b4, p4) \<Rightarrow>
                            if b4 then Inr (8, p4)
                            else Inl (DeviceNotIdentified, p4)))))"



subsection \<open>\<^verbatim>\<open>bsl_sync\<close>\<close>

text \<open>
  The \<^verbatim>\<open>do ... while\<close> loop: send \<open>SYNCH\<close>, receive one byte, count the round, sleep 10 ms,
  and go round again while \<^verbatim>\<open>(count<15) && ((len!=lenRx) || ((Rx[0]!=ACK) && (Rx[0]!=NACK)))\<close>.
  \<^verbatim>\<open>Rx[0]\<close> is looked at only when \<^verbatim>\<open>len == lenRx\<close>, that is when this round stored it.
\<close>

function sync_loop :: "nat \<Rightarrow> port \<Rightarrow> (error \<times> port) + (nat \<times> u8 list \<times> port)" where
  "sync_loop count p =
     (case send_port p [SYNCH] of (len, p1) \<Rightarrow>
        if len \<noteq> 1 then Inl (SendShort, p1)
        else (case receive_port p1 1 of
            Inl e \<Rightarrow> Inl e
          | Inr (len, Rx, p2) \<Rightarrow>
              if count + 1 < 15 \<and> (len \<noteq> 1 \<or> (Rx ! 0 \<noteq> ACK \<and> Rx ! 0 \<noteq> NACK))
              then sync_loop (count + 1) (SLEEP 10 p2)
              else Inr (len, Rx, SLEEP 10 p2)))"
  by pat_completeness auto
termination
  by (relation "measure (\<lambda>(count, p). 15 - count)") auto

declare sync_loop.simps [simp del]

definition bsl_sync :: "port \<Rightarrow> unit res" where
  "bsl_sync p =
     (if fd p = 0 then Inl (NotOpen, p)
      else (case sync_loop 0 (flush_port p) of
          Inl e \<Rightarrow> Inl e
        | Inr (len, Rx, p1) \<Rightarrow>
            if len = 1 \<and> Rx ! 0 = ACK then Inr ((), p1)
            else if len = 1 \<and> Rx ! 0 = NACK then Inr ((), p1)
            else if len = 1 then Inl (SyncFailed (Some (Rx ! 0)), p1)
            else Inl (SyncFailed None, p1)))"

subsection \<open>\<^verbatim>\<open>bsl_flashErase\<close>\<close>

text \<open>\<^verbatim>\<open>sector = (addr - 0x8000)/1024\<close> is computed in \<^verbatim>\<open>uint32_t\<close> and stored in a
  \<^verbatim>\<open>uint8_t\<close>.\<close>

definition bsl_flashErase :: "port \<Rightarrow> u32 \<Rightarrow> unit res" where
  "bsl_flashErase p addr =
     (let sector = ucast ((addr - 0x8000) div 1024) :: u8 in
      if fd p = 0 then Inl (NotOpen, p)
      else (case transact p [ERASE, ERASE XOR 0xFF] 1 of
          Inl e \<Rightarrow> Inl e
        | Inr (Rx, p1) \<Rightarrow>
            if Rx ! 0 \<noteq> ACK then Inl (UnexpectedByte ACK (Rx ! 0), p1)
            else (case transact p1 [0x00, sector, 0x00 XOR sector] 1 of
                Inl e \<Rightarrow> Inl e
              | Inr (Rx, p2) \<Rightarrow>
                  if Rx ! 0 \<noteq> ACK then Inl (UnexpectedByte ACK (Rx ! 0), p2)
                  else Inr ((), p2))))"

subsection \<open>\<^verbatim>\<open>bsl_memWrite\<close>\<close>

text \<open>
  The loop that fills the payload frame: \<^verbatim>\<open>for (i=0; i<addrStep; i++) { Tx[lenTx] = buf[idx++];
  chk ^= Tx[lenTx]; lenTx++; }\<close>. The first argument counts the rounds that are left. A read
  beyond the end of \<^verbatim>\<open>buf\<close> has no defined result in C; the model stops with \<open>None\<close>.
\<close>

fun payload_loop :: "nat \<Rightarrow> u8 list \<Rightarrow> u32 \<Rightarrow> u8 list \<Rightarrow> u8 \<Rightarrow> (u8 list \<times> u8 \<times> u32) option" where
  "payload_loop 0 buf idx Tx chk = Some (Tx, chk, idx)"
| "payload_loop (Suc k) buf idx Tx chk =
     (if unat idx < length buf
      then payload_loop k buf (idx + 1) (Tx @ [buf ! unat idx]) (chk XOR buf ! unat idx)
      else None)"

text \<open>The body of the loop over the addresses: the command, the address, and the frame
  \<^verbatim>\<open>Tx[0] = addrStep-1\<close>, the data, \<^verbatim>\<open>chk\<close>; each must be answered by \<open>ACK\<close>.\<close>

definition write_chunk :: "port \<Rightarrow> u8 list \<Rightarrow> u32 \<Rightarrow> u32 \<Rightarrow> u32 \<Rightarrow> u32 res" where
  "write_chunk p buf addrTmp addrStep idx =
     (case transact p [WRITE, WRITE XOR 0xFF] 1 of
        Inl e \<Rightarrow> Inl e
      | Inr (Rx, p1) \<Rightarrow>
          if Rx ! 0 \<noteq> ACK then Inl (UnexpectedByte ACK (Rx ! 0), p1)
          else (case transact p1 (encode_addr addrTmp) 1 of
              Inl e \<Rightarrow> Inl e
            | Inr (Rx, p2) \<Rightarrow>
                if Rx ! 0 \<noteq> ACK then Inl (UnexpectedByte ACK (Rx ! 0), p2)
                else (case payload_loop (unat addrStep) buf idx
                             [ucast (addrStep - 1)] (ucast (addrStep - 1)) of
                    None \<Rightarrow> Inl (BufferOverrun, p2)
                  | Some (Tx, chk, idx') \<Rightarrow>
                      (case transact p2 (Tx @ [chk]) 1 of
                         Inl e \<Rightarrow> Inl e
                       | Inr (Rx, p3) \<Rightarrow>
                           if Rx ! 0 \<noteq> ACK then Inl (UnexpectedByte ACK (Rx ! 0), p3)
                           else Inr (idx', p3)))))"

text \<open>
  \<^verbatim>\<open>for (addrTmp=addrStart; addrTmp<addrStart+numBytes; addrTmp+=addrStep)\<close>, with the step
  reduced by \<^verbatim>\<open>if (addrTmp+128 > addrStart+numBytes) addrStep = addrStart+numBytes-addrTmp\<close>;
  all of it in \<^verbatim>\<open>uint32_t\<close>. The loop need not end when the sums wrap around, so it is a
  partial function: \<open>None\<close> stands for a run that does not return.
\<close>

partial_function (option) memWrite_loop ::
    "u32 \<Rightarrow> u8 list \<Rightarrow> u32 \<Rightarrow> u32 \<Rightarrow> u32 \<Rightarrow> port \<Rightarrow> (u32 res) option" where
  "memWrite_loop addrEnd buf addrTmp addrStep idx p =
     (if addrTmp < addrEnd then
        (case write_chunk p buf addrTmp
                (if addrTmp + 128 > addrEnd then addrEnd - addrTmp else addrStep) idx of
           Inl e \<Rightarrow> Some (Inl e)
         | Inr (idx', p') \<Rightarrow>
             memWrite_loop addrEnd buf
               (addrTmp + (if addrTmp + 128 > addrEnd then addrEnd - addrTmp else addrStep))
               (if addrTmp + 128 > addrEnd then addrEnd - addrTmp else addrStep) idx' p')
      else Some (Inr (idx, p)))"

text \<open>\<^verbatim>\<open>verbose\<close> only selects what is printed.\<close>

definition bsl_memWrite :: "port \<Rightarrow> u32 \<Rightarrow> u32 \<Rightarrow> u8 list \<Rightarrow> u8 \<Rightarrow> (unit res) option" where
  "bsl_memWrite p addrStart numBytes buf verbose =
     (if fd p = 0 then Some (Inl (NotOpen, p))
      else (case memWrite_loop (addrStart + numBytes) buf addrStart 128 0 p of
          None \<Rightarrow> None
        | Some (Inl e) \<Rightarrow> Some (Inl e)
        | Some (Inr (idx, p')) \<Rightarrow> Some (Inr ((), p'))))"



subsection \<open>\<^verbatim>\<open>bsl_memRead\<close>\<close>

text \<open>\<^verbatim>\<open>for (i=1; i<lenRx; i++) buf[idx++] = Rx[i]\<close>; a write beyond the end of \<^verbatim>\<open>buf\<close>
  has no defined result in C, and the model stops with \<open>None\<close>.\<close>

fun copy_loop :: "u8 list \<Rightarrow> u8 list \<Rightarrow> u32 \<Rightarrow> (u8 list \<times> u32) option" where
  "copy_loop [] buf idx = Some (buf, idx)"
| "copy_loop (b # bs) buf idx =
     (if unat idx < length buf then copy_loop bs (buf[unat idx := b]) (idx + 1) else None)"

text \<open>The body of the loop: command, address, then the length frame answered by \<open>ACK\<close>
  and \<^verbatim>\<open>addrStep\<close> data bytes (\<^verbatim>\<open>lenRx = addrStep + 1\<close>). \<^verbatim>\<open>Rx[0]\<close> after the last receive
  is the first byte of that receive or, had it asked for no byte, still the one of the
  address phase.\<close>

definition read_chunk :: "port \<Rightarrow> u8 list \<Rightarrow> u32 \<Rightarrow> u32 \<Rightarrow> u32 \<Rightarrow> (u8 list \<times> u32) res" where
  "read_chunk p buf addrTmp addrStep idx =
     (case transact p [READ, READ XOR 0xFF] 1 of
        Inl e \<Rightarrow> Inl e
      | Inr (Rx1, p1) \<Rightarrow>
          if Rx1 ! 0 \<noteq> ACK then Inl (UnexpectedByte ACK (Rx1 ! 0), p1)
          else (case transact p1 (encode_addr addrTmp) 1 of
              Inl e \<Rightarrow> Inl e
            | Inr (Rx2, p2) \<Rightarrow>
                if Rx2 ! 0 \<noteq> ACK then Inl (UnexpectedByte ACK (Rx2 ! 0), p2)
                else (case transact p2 [ucast (addrStep - 1), ucast (addrStep - 1) XOR 0xFF]
                             (unat (addrStep + 1)) of
                    Inl e \<Rightarrow> Inl e
                  | Inr (Rx3, p3) \<Rightarrow>
                      if (Rx3 @ Rx2) ! 0 \<noteq> ACK
                      then Inl (UnexpectedByte ACK ((Rx3 @ Rx2) ! 0), p3)
                      else (case copy_loop (drop 1 Rx3) buf idx of
                          None \<Rightarrow> Inl (BufferOverrun, p3)
                        | Some r \<Rightarrow> Inr (r, p3)))))"

partial_function (option) memRead_loop ::
    "u32 \<Rightarrow> u32 \<Rightarrow> u32 \<Rightarrow> u32 \<Rightarrow> u8 list \<Rightarrow> port \<Rightarrow> ((u8 list) res) option" where
  "memRead_loop addrEnd addrTmp addrStep idx buf p =
     (if addrTmp < addrEnd then
        (case read_chunk p buf addrTmp
                (if addrTmp + 256 > addrEnd then addrEnd - addrTmp else addrStep) idx of
           Inl e \<Rightarrow> Some (Inl e)
         | Inr ((buf', idx'), p') \<Rightarrow>
             memRead_loop addrEnd
               (addrTmp + (if addrTmp + 256 > addrEnd then addrEnd - addrTmp else addrStep))
               (if addrTmp + 256 > addrEnd then addrEnd - addrTmp else addrStep) idx' buf' p')
      else Some (Inr (buf, p)))"

text \<open>\<^verbatim>\<open>bsl_memRead\<close> clears the first \<^verbatim>\<open>numBytes\<close> bytes of \<^verbatim>\<open>buf\<close> (a buffer shorter
  than that is overrun) and then runs the loop. The result is the buffer as the routine
  leaves it.\<close>

definition bsl_memRead :: "port \<Rightarrow> u32 \<Rightarrow> u32 \<Rightarrow> u8 list \<Rightarrow> ((u8 list) res) option" where
  "bsl_memRead p addrStart numBytes buf =
     (if fd p = 0 then Some (Inl (NotOpen, p))
      else if length buf < unat numBytes then Some (Inl (BufferOverrun, p))
      else memRead_loop (addrStart + numBytes) addrStart 256 0
             (replicate (unat numBytes) 0 @ drop (unat numBytes) buf) p)"

subsection \<open>Reading the wire\<close>

text \<open>The frames written and the answers received, in order; the port a run ends with,
  and the events the run has added to the trace.\<close>

fun sent_frames :: "event list \<Rightarrow> u8 list list" where
  "sent_frames [] = []"
| "sent_frames (Sent f # evs) = f # sent_frames evs"
| "sent_frames (Recv n r # evs) = sent_frames evs"

fun replies :: "event list \<Rightarrow> u8 list list" where
  "replies [] = []"
| "replies (Sent f # evs) = replies evs"
| "replies (Recv n r # evs) = r # replies evs"

definition port_of :: "'a res \<Rightarrow> port" where
  "port_of r = (case r of Inl (e, p) \<Rightarrow> p | Inr (x, p) \<Rightarrow> p)"

definition wire :: "port \<Rightarrow> 'a res \<Rightarrow> event list" where
  "wire p r = drop (length (trace p)) (trace (port_of r))"

text \<open>The wire trace of rounds of \<open>bsl_sync\<close> with the given answers, and the answers
  that end the loop: exactly one byte, \<open>ACK\<close> or \<open>NACK\<close>.\<close>

definition rounds :: "u8 list list \<Rightarrow> event list" where
  "rounds rs = concat (map (\<lambda>r. [Sent [SYNCH], Recv 1 r]) rs)"

definition sync_ok :: "u8 list \<Rightarrow> bool" where
  "sync_ok r = (r = [ACK] \<or> r = [NACK])"




text \<open>
  For \<open>bsl_memWrite\<close>: the \<open>k\<close> bytes of \<open>buf\<close> from index \<open>idx\<close> on (the index counted
  in \<^verbatim>\<open>uint32_t\<close>); the payload frame in the words of the specification, \<open>[s - 1, d0, ...,
  chk]\<close> with \<open>chk\<close> the XOR of all bytes before it; the wire trace of one chunk, given as
  its address and its data; and the split of a transfer into chunks of 128 bytes at
  consecutive addresses.
\<close>

definition buf_bytes :: "u8 list \<Rightarrow> u32 \<Rightarrow> nat \<Rightarrow> u8 list" where
  "buf_bytes buf idx k = map (\<lambda>j. buf ! unat (idx + of_nat j)) [0..<k]"



function chunks_of :: "u32 \<Rightarrow> u8 list \<Rightarrow> (u32 \<times> u8 list) list" where
  "chunks_of a ds =
     (if ds = [] then [] else (a, take 128 ds) # chunks_of (a + 128) (drop 128 ds))"
  by pat_completeness auto
termination
  by (relation "measure (\<lambda>(a, ds). length ds)") auto

declare chunks_of.simps [simp del]



section \<open>Facts about the transport\<close>

lemma send_port_full:
  assumes "send_port p Tx = (len, p1)" and "len = int (length Tx)"
  shows "trace p1 = trace p @ [Sent Tx]" and "tio p1 = tio p" and "fd p1 = fd p"
    and "tc_ok p1 = tc_ok p" and "incoming p1 = incoming p" and "clock p1 = clock p"
    and "rxbuf p1 = rxbuf p"
  using assms
  by (auto simp: send_port_def split: list.splits write_result.splits if_splits)

lemma send_port_frame:
  assumes "send_port p Tx = (len, p1)"
  shows "tio p1 = tio p" and "fd p1 = fd p" and "tc_ok p1 = tc_ok p"
    and "incoming p1 = incoming p" and "clock p1 = clock p" and "rxbuf p1 = rxbuf p"
  using assms
  by (auto simp: send_port_def split: list.splits write_result.splits)

lemma receive_port_Inr:
  assumes "receive_port p n = Inr (len, Rx, p1)"
  shows "len = length Rx" and "trace p1 = trace p @ [Recv n Rx]" and "tio p1 = tio p"
    and "fd p1 = fd p" and "tc_ok p1 = tc_ok p" and "writes p1 = writes p"
  using assms
  by (auto simp: receive_port_def Let_def split: if_splits prod.splits)

lemma receive_port_Inl:
  assumes "receive_port p n = Inl (e, p1)"
  shows "e = ConfigFailed" and "p1 = p" and "\<not> tc_ok p"
  using assms
  by (auto simp: receive_port_def Let_def split: if_splits prod.splits)

lemma transact_Inr:
  assumes "transact p Tx n = Inr (Rx, p1)"
  shows "length Rx = n" and "trace p1 = trace p @ [Sent Tx, Recv n Rx]"
    and "tio p1 = tio p" and "fd p1 = fd p" and "tc_ok p1 = tc_ok p"
proof -
  obtain len p0 where s: "send_port p Tx = (len, p0)"
    by (cases "send_port p Tx")
  with assms have len: "len = int (length Tx)"
    by (auto simp: transact_def split: if_splits)
  with assms s obtain k where r: "receive_port p0 n = Inr (k, Rx, p1)" and k: "k = n"
    by (auto simp: transact_def split: if_splits sum.splits)
  from receive_port_Inr [OF r] send_port_full [OF s len] k
  show "length Rx = n" and "trace p1 = trace p @ [Sent Tx, Recv n Rx]"
    and "tio p1 = tio p" and "fd p1 = fd p" and "tc_ok p1 = tc_ok p"
    by simp_all
qed

text \<open>The loop in a form that evaluates on numerals.\<close>

lemma rx_loop_unfold:
  "rx_loop timeout n got waits evs =
     (if n = 0 then (got, [], evs, waits, Complete)
      else (case evs of
          [] \<Rightarrow> (got, [], [], waits @ [timeout], TimedOut)
        | Fault d # es \<Rightarrow>
            if d \<le> timeout then (got, [], es, waits @ [d], SelectFailed)
            else (got, [], Fault (d - timeout) # es, waits @ [timeout], TimedOut)
        | Ready d rr # es \<Rightarrow>
            if timeout < d then (got, [], Ready (d - timeout) rr # es, waits @ [timeout], TimedOut)
            else (case rr of
                Eagain \<Rightarrow> rx_loop timeout n got (waits @ [d]) es
              | Eio \<Rightarrow> (got, [], es, waits @ [d], ReadFailed)
              | Data bs \<Rightarrow>
                  if length bs \<le> n
                  then rx_loop timeout (n - length bs) (got @ bs) (waits @ [d]) es
                  else (got @ take n bs, drop n bs, es, waits @ [d], Complete))))"
  by (cases n; cases evs) (auto split: os_event.splits read_result.splits)

lemma singleton_nth0: "length xs = Suc 0 \<Longrightarrow> xs = [xs ! 0]"
  by (cases xs) auto



lemma rx_loop_length:
  "rx_loop t n got w evs = (g, rest, es, w', why) \<Longrightarrow> length g \<le> length got + n"
  by (induction t n got w evs arbitrary: g rest es w' why rule: rx_loop.induct)
     (fastforce split: if_splits read_result.splits)+

lemma receive_port_length:
  "receive_port p n = Inr (len, Rx, p1) \<Longrightarrow> length Rx \<le> n"
  by (auto simp: receive_port_def Let_def dest: rx_loop_length split: if_splits prod.splits)

section \<open>A scripted target\<close>

text \<open>An open port on a line with \<^verbatim>\<open>VTIME = 10\<close> (a timeout of 1000 ms) whose writes are
  all accepted; the script is what the target will answer.\<close>

definition line0 :: termios where
  "line0 = \<lparr>c_iflag = 0, c_oflag = 0, c_cflag = 0, c_lflag = 0, c_vmin = 255, c_vtime = 10,
             c_ispeed = 0, c_ospeed = 0\<rparr>"

definition mock :: "os_event list \<Rightarrow> port" where
  "mock evs = \<lparr>fd = 3, tc_ok = True, ioctl_ok = True, tio = line0, modem = 0,
                rxbuf = [], incoming = evs, writes = [], clock = 0, trace = []\<rparr>"

abbreviation reply :: "u8 list \<Rightarrow> os_event" where
  "reply bs \<equiv> Ready 0 (Data bs)"



lemmas consts_defs = SYNCH_def ACK_def NACK_def GET_def READ_def GO_def WRITE_def ERASE_def

lemmas run_defs = mock_def line0_def transact_def send_port_def receive_port_def
  rx_script_def rx_loop_unfold encode_addr_def consts_defs

section \<open>\<^verbatim>\<open>bsl_memCheck\<close>: the phases of the probe\<close>








section \<open>\<^verbatim>\<open>bsl_flashErase\<close>: the sector code and the two frames\<close>

text \<open>
  C9: a successful \<open>bsl_flashErase\<close> has put exactly two frames on the wire, each answered
  by \<open>ACK\<close>: the command frame \<open>[ERASE, ERASE XOR 0xFF]\<close>, then \<open>[0x00, sector, 0x00 XOR
  sector]\<close>, where \<open>sector\<close> is the low byte of \<open>(addr - 0x8000) / 1024\<close>. For an address
  from \<open>0x8000\<close> on, that byte is \<open>((addr - 0x8000) div 1024) mod 256\<close> on the naturals.
\<close>

theorem bsl_flashErase_frames:
  assumes "bsl_flashErase p addr = Inr (u, p')"
  shows "\<exists>sector :: u8.
           sector = ucast ((addr - 0x8000) div 1024)
         \<and> (if 0x8000 \<le> addr then unat sector = ((unat addr - 32768) div 1024) mod 256
              else True)
         \<and> trace p' = trace p
              @ [Sent [ERASE, ERASE XOR 0xFF], Recv 1 [ACK],
                 Sent [0x00, sector, 0x00 XOR sector], Recv 1 [ACK]]"
proof -
  define sector :: u8 where "sector = ucast ((addr - 0x8000) div 1024)"
  from assms obtain Rx1 p1 where t1: "transact p [ERASE, ERASE XOR 0xFF] 1 = Inr (Rx1, p1)"
    and a1: "Rx1 ! 0 = ACK"
    by (auto simp: bsl_flashErase_def Let_def split: if_splits sum.splits)
  from assms t1 a1 obtain Rx2 where
    t2: "transact p1 [0x00, sector, 0x00 XOR sector] 1 = Inr (Rx2, p')" and a2: "Rx2 ! 0 = ACK"
    by (auto simp: bsl_flashErase_def Let_def sector_def split: if_splits sum.splits)
  from transact_Inr [OF t1] a1 have tr1:
    "trace p1 = trace p @ [Sent [ERASE, ERASE XOR 0xFF], Recv 1 [ACK]]"
    using singleton_nth0 [of Rx1] by simp
  from transact_Inr [OF t2] a2 have tr2:
    "trace p' = trace p1 @ [Sent [0x00, sector, 0x00 XOR sector], Recv 1 [ACK]]"
    using singleton_nth0 [of Rx2] by simp
  have ar: "unat sector = ((unat addr - 32768) div 1024) mod 256" if "0x8000 \<le> addr"
  proof -
    from that have "unat (addr - 0x8000) = unat addr - 32768"
      by (simp add: unat_sub)
    then have "unat ((addr - 0x8000) div 1024) = (unat addr - 32768) div 1024"
      by (simp add: unat_div)
    then show ?thesis
      by (simp add: sector_def unsigned_ucast_eq take_bit_eq_mod)
  qed
  from tr1 tr2 ar show ?thesis
    by (auto simp: sector_def)
qed

theorem bsl_flashErase_frames_witness:
  "bsl_flashErase (mock [reply [0x79], reply [0x79]]) 0x8C00
     = Inr ((), (mock [])\<lparr>trace :=
         [Sent [0x43, 0xBC], Recv 1 [0x79], Sent [0x00, 0x03, 0x03], Recv 1 [0x79]]\<rparr>)
   \<and> (\<exists>sector :: u8.
           sector = ucast (((0x8C00 :: u32) - 0x8000) div 1024)
         \<and> unat sector = 3
         \<and> trace ((mock [])\<lparr>trace :=
               [Sent [0x43, 0xBC], Recv 1 [0x79], Sent [0x00, 0x03, 0x03], Recv 1 [0x79]]\<rparr>)
             = trace (mock [reply [0x79], reply [0x79]])
               @ [Sent [ERASE, ERASE XOR 0xFF], Recv 1 [ACK],
                  Sent [0x00, sector, 0x00 XOR sector], Recv 1 [ACK]])"
proof -
  have run: "bsl_flashErase (mock [reply [0x79], reply [0x79]]) 0x8C00
     = Inr ((), (mock [])\<lparr>trace :=
         [Sent [0x43, 0xBC], Recv 1 [0x79], Sent [0x00, 0x03, 0x03], Recv 1 [0x79]]\<rparr>)"
    by (simp add: bsl_flashErase_def run_defs)
  from bsl_flashErase_frames [OF run] run show ?thesis
    by (simp add: mock_def consts_defs)
qed

section \<open>\<^verbatim>\<open>bsl_sync\<close>: the retry loop\<close>

lemma sync_ok_iff:
  "length Rx \<le> 1 \<Longrightarrow>
     (length Rx \<noteq> 1 \<or> (Rx ! 0 \<noteq> ACK \<and> Rx ! 0 \<noteq> NACK)) = (\<not> sync_ok Rx)"
  by (cases Rx) (auto simp: sync_ok_def)

lemma rounds_snoc: "rounds (rs @ [r]) = rounds rs @ [Sent [SYNCH], Recv 1 r]"
  by (simp add: rounds_def)

lemma rounds_Cons: "rounds (r # rs) = [Sent [SYNCH], Recv 1 r] @ rounds rs"
  by (simp add: rounds_def)

lemma sync_loop_Inr:
  "sync_loop count p = Inr (len, Rx, p') \<Longrightarrow> count < 15 \<Longrightarrow>
     \<exists>rs. trace p' = trace p @ rounds (rs @ [Rx]) \<and> len = length Rx \<and> length Rx \<le> 1
        \<and> (\<forall>x\<in>set rs. \<not> sync_ok x) \<and> count + length rs < 15
        \<and> (sync_ok Rx \<or> count + length rs = 14)
        \<and> tio p' = tio p"
proof (induction count p arbitrary: len Rx p' rule: sync_loop.induct)
  case (1 count p)
  obtain l0 p1 where s: "send_port p [SYNCH] = (l0, p1)"
    by (cases "send_port p [SYNCH]")
  from "1.prems"(1) s have l0: "l0 = int (length [SYNCH])"
    by (auto simp: sync_loop.simps [of count p] split: if_splits)
  from "1.prems"(1) s l0 obtain l1 Rx1 p2 where r: "receive_port p1 1 = Inr (l1, Rx1, p2)"
    by (auto simp: sync_loop.simps [of count p] split: if_splits sum.splits)
  note sp = send_port_full [OF s l0]
  note rp = receive_port_Inr [OF r]
  from receive_port_length [OF r] have le: "length Rx1 \<le> 1" .
  have tr2: "trace (SLEEP 10 p2) = trace p @ [Sent [SYNCH], Recv 1 Rx1]"
    using sp rp by (simp add: SLEEP_def)
  have tio2: "tio (SLEEP 10 p2) = tio p"
    using sp rp by (simp add: SLEEP_def)
  show ?case
  proof (cases "count + 1 < 15 \<and> \<not> sync_ok Rx1")
    case True
    with "1.prems"(1) s l0 r rp(1) le
    have rec: "sync_loop (count + 1) (SLEEP 10 p2) = Inr (len, Rx, p')"
      using sync_ok_iff [OF le]
      by (simp add: sync_loop.simps [of count p])
    from True rp(1) le sync_ok_iff [OF le]
    have cond: "count + 1 < 15 \<and> (l1 \<noteq> 1 \<or> Rx1 ! 0 \<noteq> ACK \<and> Rx1 ! 0 \<noteq> NACK)"
      by simp
    from "1.IH" [of l0 p1 "(l1, Rx1, p2)" l1 "(Rx1, p2)" Rx1 p2 len Rx p'] s l0 r cond rec True
    obtain rs where ih: "trace p' = trace (SLEEP 10 p2) @ rounds (rs @ [Rx])"
      "len = length Rx" "length Rx \<le> 1" "\<forall>x\<in>set rs. \<not> sync_ok x"
      "count + 1 + length rs < 15" "sync_ok Rx \<or> count + 1 + length rs = 14"
      "tio p' = tio (SLEEP 10 p2)"
      by auto
    show ?thesis
      apply (rule exI [of _ "Rx1 # rs"])
      using ih tr2 tio2 True
      by (simp add: rounds_Cons)
  next
    case False
    with "1.prems"(1) s l0 r rp(1) le
    have res: "len = l1" "Rx = Rx1" "p' = SLEEP 10 p2"
      using sync_ok_iff [OF le]
      by (auto simp: sync_loop.simps [of count p] split: if_splits)
    show ?thesis
      apply (rule exI [of _ "[]"])
      using res tr2 tio2 False rp(1) le "1.prems"(2)
      by (auto simp: rounds_def)
  qed
qed



lemma replies_append: "replies (xs @ ys) = replies xs @ replies ys"
  by (induction xs rule: replies.induct) auto


lemma replies_rounds: "replies (rounds rs) = rs"
  by (induction rs) (auto simp: rounds_Cons rounds_def)

lemma send_port_short:
  assumes "send_port p [x] = (len, p1)" and "len \<noteq> 1"
  shows "trace p1 = trace p \<or> trace p1 = trace p @ [Sent []]"
  using assms
  by (auto simp: send_port_def min_def split: list.splits write_result.splits if_splits)

lemma sync_loop_Inl:
  "sync_loop count p = Inl (e, p') \<Longrightarrow> count < 15 \<Longrightarrow>
     \<exists>rs tl. trace p' = trace p @ rounds rs @ tl
        \<and> (\<forall>x\<in>set rs. \<not> sync_ok x) \<and> count + length rs < 15
        \<and> (tl = [] \<or> tl = [Sent []] \<or> tl = [Sent [SYNCH]])
        \<and> (e = SendShort \<or> e = ConfigFailed)"
proof (induction count p arbitrary: e p' rule: sync_loop.induct)
  case (1 count p)
  obtain l0 p1 where s: "send_port p [SYNCH] = (l0, p1)"
    by (cases "send_port p [SYNCH]")
  show ?case
  proof (cases "l0 = 1")
    case False
    with "1.prems"(1) s have "e = SendShort" "p' = p1"
      by (auto simp: sync_loop.simps [of count p])
    moreover from send_port_short [OF s False]
    obtain tl where "trace p1 = trace p @ tl" "tl = [] \<or> tl = [Sent []]"
      by auto
    ultimately show ?thesis
      using "1.prems"(2)
      by (rule_tac x = "[]" in exI, rule_tac x = tl in exI) (auto simp: rounds_def)
  next
    case True
    then have l0: "l0 = int (length [SYNCH])" by simp
    note sp = send_port_full [OF s l0]
    show ?thesis
    proof (cases "receive_port p1 1")
      case (Inl a)
      obtain e1 q where a: "a = (e1, q)" by (cases a)
      from receive_port_Inl [OF Inl [unfolded a]] "1.prems"(1) s True Inl a
      have "e = ConfigFailed" "p' = p1"
        by (auto simp: sync_loop.simps [of count p])
      with sp "1.prems"(2) show ?thesis
        by (rule_tac x = "[]" in exI, rule_tac x = "[Sent [SYNCH]]" in exI)
           (simp add: rounds_def)
    next
      case (Inr b)
      obtain l1 Rx1 p2 where b: "b = (l1, Rx1, p2)" by (cases b)
      with Inr have r: "receive_port p1 1 = Inr (l1, Rx1, p2)" by simp
      note rp = receive_port_Inr [OF r]
      from receive_port_length [OF r] have le: "length Rx1 \<le> 1" .
      have tr2: "trace (SLEEP 10 p2) = trace p @ [Sent [SYNCH], Recv 1 Rx1]"
        using sp rp by (simp add: SLEEP_def)
      from "1.prems"(1) s True r
      have cond: "count + 1 < 15 \<and> (l1 \<noteq> 1 \<or> Rx1 ! 0 \<noteq> ACK \<and> Rx1 ! 0 \<noteq> NACK)"
        and rec: "sync_loop (count + 1) (SLEEP 10 p2) = Inl (e, p')"
        by (auto simp: sync_loop.simps [of count p] split: if_splits)
      from cond rp(1) sync_ok_iff [OF le] have nok: "\<not> sync_ok Rx1" by simp
      from "1.IH" [of l0 p1 "(l1, Rx1, p2)" l1 "(Rx1, p2)" Rx1 p2 e p'] s True r cond rec
      obtain rs tl where ih: "trace p' = trace (SLEEP 10 p2) @ rounds rs @ tl"
        "\<forall>x\<in>set rs. \<not> sync_ok x" "count + 1 + length rs < 15"
        "tl = [] \<or> tl = [Sent []] \<or> tl = [Sent [SYNCH]]"
        "e = SendShort \<or> e = ConfigFailed"
        by auto
      show ?thesis
        apply (rule exI [of _ "Rx1 # rs"])
        apply (rule exI [of _ tl])
        using ih tr2 nok
        by (simp add: rounds_Cons)
    qed
  qed
qed

lemma flush_port_frame [simp]:
  "trace (flush_port p) = trace p" "tio (flush_port p) = tio p" "fd (flush_port p) = fd p"
  by (simp_all add: flush_port_def)

text \<open>What a run of \<open>bsl_sync\<close> on an open port leaves on the wire.\<close>

lemma bsl_sync_wire:
  assumes "fd p \<noteq> 0"
  shows "(case bsl_sync p of
      Inr (u, p') \<Rightarrow>
        \<exists>rs r. wire p (bsl_sync p) = rounds (rs @ [r]) \<and> length rs < 15
             \<and> (\<forall>x\<in>set rs. \<not> sync_ok x) \<and> sync_ok r
    | Inl (e, p') \<Rightarrow>
        (case e of
           SyncFailed b \<Rightarrow>
             \<exists>rs r. wire p (bsl_sync p) = rounds (rs @ [r]) \<and> length rs = 14
                  \<and> (\<forall>x\<in>set rs. \<not> sync_ok x) \<and> \<not> sync_ok r
                  \<and> b = (if length r = 1 then Some (r ! 0) else None)
         | _ \<Rightarrow>
             \<exists>rs tl. wire p (bsl_sync p) = rounds rs @ tl \<and> length rs < 15
                  \<and> (\<forall>x\<in>set rs. \<not> sync_ok x) \<and> replies tl = []
                  \<and> set (sent_frames tl) \<subseteq> {[SYNCH], []} \<and> length tl \<le> 1))"
proof (cases "sync_loop 0 (flush_port p)")
  case (Inl a)
  obtain e q where a: "a = (e, q)" by (cases a)
  from sync_loop_Inl [OF Inl [unfolded a]]
  obtain rs tl where f: "trace q = trace p @ rounds rs @ tl"
    "\<forall>x\<in>set rs. \<not> sync_ok x" "length rs < 15"
    "tl = [] \<or> tl = [Sent []] \<or> tl = [Sent [SYNCH]]"
    "e = SendShort \<or> e = ConfigFailed"
    by auto
  from assms Inl a have res: "bsl_sync p = Inl (e, q)"
    by (simp add: bsl_sync_def)
  have w: "wire p (bsl_sync p) = rounds rs @ tl"
    by (simp add: res wire_def port_of_def f)
  from f(4) have "replies tl = [] \<and> set (sent_frames tl) \<subseteq> {[SYNCH], []} \<and> length tl \<le> 1"
    by auto
  with f w have X: "\<exists>rs tl. wire p (bsl_sync p) = rounds rs @ tl \<and> length rs < 15
                  \<and> (\<forall>x\<in>set rs. \<not> sync_ok x) \<and> replies tl = []
                  \<and> set (sent_frames tl) \<subseteq> {[SYNCH], []} \<and> length tl \<le> 1"
    by blast
  from f(5) X show ?thesis
    unfolding res by (elim disjE) simp_all
next
  case (Inr b)
  obtain len Rx q where b: "b = (len, Rx, q)" by (cases b)
  from sync_loop_Inr [OF Inr [unfolded b]]
  obtain rs where f: "trace q = trace p @ rounds (rs @ [Rx])" "len = length Rx"
    "length Rx \<le> 1" "\<forall>x\<in>set rs. \<not> sync_ok x" "length rs < 15"
    "sync_ok Rx \<or> length rs = 14"
    by auto
  show ?thesis
  proof (cases "sync_ok Rx")
    case True
    then have "len = 1 \<and> (Rx ! 0 = ACK \<or> Rx ! 0 = NACK)"
      using f(2) by (auto simp: sync_ok_def)
    with assms Inr b have res: "bsl_sync p = Inr ((), q)"
      by (auto simp: bsl_sync_def)
    have w: "wire p (bsl_sync p) = rounds (rs @ [Rx])"
      by (simp add: res wire_def port_of_def f)
    with f True show ?thesis
      unfolding res by auto
  next
    case False
    with sync_ok_iff [OF f(3)] f(2)
    have c: "len \<noteq> 1 \<or> (Rx ! 0 \<noteq> ACK \<and> Rx ! 0 \<noteq> NACK)" by simp
    with assms Inr b f(2)
    have res: "bsl_sync p = Inl (SyncFailed (if length Rx = 1 then Some (Rx ! 0) else None), q)"
      by (auto simp: bsl_sync_def)
    have w: "wire p (bsl_sync p) = rounds (rs @ [Rx])"
      by (simp add: res wire_def port_of_def f)
    from f False have "length rs = 14" by simp
    with f w False show ?thesis
      unfolding res by auto
  qed
qed


lemmas sync_run_defs = bsl_sync_def sync_loop.simps flush_port_def SLEEP_def run_defs

text \<open>
  C4, as stated: a single received byte that is neither \<open>ACK\<close> nor \<open>NACK\<close> makes the
  synchronisation fail. The loop condition treats such a byte like a missing answer while
  fewer than 15 rounds have run: here the target answers the first \<open>SYNCH\<close> with \<open>0x55\<close>
  and the second with \<open>ACK\<close>, and \<open>bsl_sync\<close> succeeds.
\<close>

theorem bsl_sync_retry_counterexample:
  "bsl_sync (mock [reply [0x55], reply [0x79]])
     = Inr ((), (mock [])\<lparr>clock := 20, trace :=
         [Sent [0x7F], Recv 1 [0x55], Sent [0x7F], Recv 1 [0x79]]\<rparr>)"
  by (simp add: sync_run_defs)

text \<open>
  C4, amended: on an open port \<open>bsl_sync\<close> fails with \<open>SyncFailed\<close> carrying the byte \<open>b\<close>
  exactly when 15 rounds have run and the answer to the fifteenth \<open>SYNCH\<close> is the single
  byte \<open>b\<close>, neither \<open>ACK\<close> nor \<open>NACK\<close>. (In an earlier round such a byte only causes
  the next round.)
\<close>

theorem bsl_sync_unexpected_byte:
  assumes "fd p \<noteq> 0"
  shows "(\<exists>p'. bsl_sync p = Inl (SyncFailed (Some b), p'))
       = (length (replies (wire p (bsl_sync p))) = 15
          \<and> replies (wire p (bsl_sync p)) ! 14 = [b] \<and> b \<noteq> ACK \<and> b \<noteq> NACK)"
proof (cases "bsl_sync p")
  case (Inr a)
  obtain u q where a: "a = (u, q)" by (cases a)
  from bsl_sync_wire [OF assms] Inr a
  obtain rs r where f: "wire p (bsl_sync p) = rounds (rs @ [r])" "length rs < 15"
    "\<forall>x\<in>set rs. \<not> sync_ok x" "sync_ok r"
    by auto
  have "replies (wire p (bsl_sync p)) = rs @ [r]"
    by (simp add: f(1) replies_rounds)
  with f Inr show ?thesis
    by (auto simp: nth_append sync_ok_def)
next
  case (Inl a)
  obtain e q where a: "a = (e, q)" by (cases a)
  show ?thesis
  proof (cases "\<exists>c. e = SyncFailed c")
    case True
    then obtain c where c: "e = SyncFailed c" by auto
    from bsl_sync_wire [OF assms] Inl a c
    obtain rs r where f: "wire p (bsl_sync p) = rounds (rs @ [r])" "length rs = 14"
      "\<not> sync_ok r" "c = (if length r = 1 then Some (r ! 0) else None)"
      by auto
    have "replies (wire p (bsl_sync p)) = rs @ [r]"
      by (simp add: f(1) replies_rounds)
    with f Inl a c show ?thesis
      using singleton_nth0 [of r]
      by (auto simp: nth_append sync_ok_def)
  next
    case False
    with bsl_sync_wire [OF assms] Inl a
    obtain rs tl where f: "wire p (bsl_sync p) = rounds rs @ tl" "length rs < 15"
      "replies tl = []"
      by (cases e) auto
    have "replies (wire p (bsl_sync p)) = rs"
      by (simp add: f replies_append replies_rounds)
    with f False Inl a show ?thesis
      by auto
  qed
qed

theorem bsl_sync_unexpected_byte_witness:
  "fd (mock [Ready 14500 (Data [0x55])]) \<noteq> 0
   \<and> (\<exists>p'. bsl_sync (mock [Ready 14500 (Data [0x55])]) = Inl (SyncFailed (Some 0x55), p'))
   \<and> length (replies (wire (mock [Ready 14500 (Data [0x55])])
                         (bsl_sync (mock [Ready 14500 (Data [0x55])])))) = 15
   \<and> replies (wire (mock [Ready 14500 (Data [0x55])])
                 (bsl_sync (mock [Ready 14500 (Data [0x55])]))) ! 14 = [0x55]"
proof -
  have o: "fd (mock [Ready 14500 (Data [0x55])]) \<noteq> 0"
    by (simp add: mock_def)
  have run: "\<exists>p'. bsl_sync (mock [Ready 14500 (Data [0x55])]) = Inl (SyncFailed (Some 0x55), p')"
    by (simp add: sync_run_defs)
  from bsl_sync_unexpected_byte [OF o, of "0x55"] run o show ?thesis
    by simp
qed



section \<open>\<^verbatim>\<open>bsl_getInfo\<close>: the probes, the timeout and the version\<close>



lemma transact_Inl:
  assumes "transact p Tx n = Inl (e, p')"
  shows "e = SendShort \<or> e = ConfigFailed \<or> e = Timeout"
  using assms
  by (auto simp: transact_def dest: receive_port_Inl split: prod.splits if_splits sum.splits)

lemma transact_not_Inl [simp]:
  "transact p Tx n \<noteq> Inl (DeviceNotIdentified, p')"
  "transact p Tx n \<noteq> Inl (ProtocolViolation, p')"
  using transact_Inl [of p Tx n _ p'] by auto

lemma bsl_memCheck_not_Inl [simp]:
  "bsl_memCheck p a \<noteq> Inl (DeviceNotIdentified, p')"
  "bsl_memCheck p a \<noteq> Inl (ProtocolViolation, p')"
  by (auto simp: bsl_memCheck_def split: if_splits sum.splits)


lemma probe_density_not_Inl [simp]:
  "probe_density p \<noteq> Inl (ProtocolViolation, p')"
  by (auto simp: probe_density_def split: if_splits sum.splits)

lemma set_timeout_not_Inl [simp]:
  "set_timeout p t \<noteq> Inl (DeviceNotIdentified, p')"
  "set_timeout p t \<noteq> Inl (ProtocolViolation, p')"
  by (auto simp: set_timeout_def)



lemma set_timeout_Inl:
  assumes "set_timeout p t = Inl (e, p')"
  shows "e = ConfigFailed" and "p' = p"
  using assms by (auto simp: set_timeout_def split: if_splits)

lemma SLEEP_frame [simp]:
  "trace (SLEEP n p) = trace p" "tio (SLEEP n p) = tio p" "fd (SLEEP n p) = fd p"
  by (simp_all add: SLEEP_def)








section \<open>\<^verbatim>\<open>get_port_attribute\<close> after \<^verbatim>\<open>set_port_attribute\<close>\<close>

lemmas termios_consts = CSIZE_def CS7_def CS8_def CSTOPB_def CREAD_def PARENB_def CLOCAL_def
  CRTSCTS_def IXON_def IXANY_def IXOFF_def ISIG_def ICANON_def ECHO_def ECHOE_def OPOST_def
  TIOCM_DTR_def TIOCM_RTS_def B4800_def B9600_def B19200_def B38400_def B57600_def B115200_def

text \<open>Whatever the line settings and the modem bits are, \<open>get_port_attribute\<close> reports two
  stop bits and both RTS and DTR set: an OR with a non-zero constant is never zero.\<close>

lemma get_port_attribute_fixed:
  assumes "get_port_attribute p = Inr a"
  shows "numStop a = 2" and "RTS a = 1" and "DTR a = 1"
proof -
  have nz: "x OR y \<noteq> 0" if "y \<noteq> 0" for x y :: u32
    using that by (metis or_eq_0_iff)
  from assms show "numStop a = 2" and "RTS a = 1" and "DTR a = 1"
    by (auto simp: get_port_attribute_def Let_def nz CSTOPB_def TIOCM_RTS_def TIOCM_DTR_def
        split: if_splits)
qed

text \<open>
  C2 at the record 9600 baud, 1000 ms, 8 data bits, no parity, 1 stop bit, RTS and DTR
  low, on an open port whose modem bits are all clear: \<open>set_port_attribute\<close> stores the
  settings, and \<open>get_port_attribute\<close> then reports 2 stop bits, RTS = 1 and DTR = 1 (and 7
  data bits, the \<^verbatim>\<open>CSIZE\<close> field having been cleared after \<^verbatim>\<open>CS8\<close> was set).
\<close>

theorem port_attribute_readback:
  "set_port_attribute (mock [])
       \<lparr>baudrate = 9600, timeout_ms = 1000, numBits = 8, parity = 0, numStop = 1,
        RTS = 0, DTR = 0\<rparr>
     = Inr ((mock [])\<lparr>tio := \<lparr>c_iflag = 0, c_oflag = 0, c_cflag = 0x880, c_lflag = 0,
                                c_vmin = 255, c_vtime = 10, c_ispeed = 13, c_ospeed = 13\<rparr>\<rparr>)
   \<and> get_port_attribute
       ((mock [])\<lparr>tio := \<lparr>c_iflag = 0, c_oflag = 0, c_cflag = 0x880, c_lflag = 0,
                            c_vmin = 255, c_vtime = 10, c_ispeed = 13, c_ospeed = 13\<rparr>\<rparr>)
     = Inr \<lparr>baudrate = 9600, timeout_ms = 1000, numBits = 7, parity = 0, numStop = 2,
            RTS = 1, DTR = 1\<rparr>"
  by (simp add: set_port_attribute_def get_port_attribute_def Let_def cfsetspeed_def
      valid_speed_def baud_code_def termios_consts mock_def line0_def)

section \<open>\<^verbatim>\<open>receive_port\<close>: what the timeout bounds\<close>





section \<open>\<^verbatim>\<open>bsl_memWrite\<close> and \<^verbatim>\<open>bsl_memRead\<close>: chunks and frames\<close>



lemma length_buf_bytes [simp]: "length (buf_bytes buf idx k) = k"
  by (simp add: buf_bytes_def)













lemma chunks_of_Nil [simp]: "chunks_of a [] = []"
  by (simp add: chunks_of.simps)



lemma payload_loop_unfold:
  "payload_loop k buf idx Tx chk =
     (if k = 0 then Some (Tx, chk, idx)
      else if unat idx < length buf
      then payload_loop (k - 1) buf (idx + 1) (Tx @ [buf ! unat idx]) (chk XOR buf ! unat idx)
      else None)"
  by (cases k) auto

lemmas mem_run_defs = bsl_memWrite_def memWrite_loop.simps write_chunk_def payload_loop_unfold
  bsl_memRead_def memRead_loop.simps read_chunk_def run_defs

lemma replicate_unfold:
  "replicate n x = (if n = 0 then [] else x # replicate (n - 1) x)"
  by (cases n) auto

lemma list_update_unfold:
  "(x # xs)[n := v] = (if n = 0 then v # xs else x # xs[n - 1 := v])"
  by (cases n) auto

text \<open>The read of three bytes from \<open>0x8000\<close>, as a check of the model of \<open>bsl_memRead\<close>.\<close>

lemma bsl_memRead_example:
  "bsl_memRead (mock [reply [0x79], reply [0x79], reply [0x79, 0xAA, 0xBB, 0xCC]])
       0x8000 3 [0x55, 0x55, 0x55]
     = Some (Inr ([0xAA, 0xBB, 0xCC], (mock [])\<lparr>trace :=
         [Sent [0x11, 0xEE], Recv 1 [0x79], Sent [0x00, 0x00, 0x80, 0x00, 0x80], Recv 1 [0x79],
          Sent [0x02, 0xFD], Recv 4 [0x79, 0xAA, 0xBB, 0xCC]]\<rparr>))"
  by (simp add: mem_run_defs replicate_unfold list_update_unfold)



text \<open>
  C10: on an open port, \<open>bsl_memRead\<close> and \<open>bsl_memWrite\<close> with a byte count of 0 return
  successfully and leave the port as it was, wire trace included: nothing is sent and
  nothing is received. \<open>bsl_memRead\<close> returns the buffer unchanged.
\<close>

theorem bsl_mem_zero_bytes:
  assumes "fd p \<noteq> 0"
  shows "bsl_memRead p addrStart 0 buf = Some (Inr (buf, p))
       \<and> bsl_memWrite p addrStart 0 buf verbose = Some (Inr ((), p))"
  using assms
  by (simp add: bsl_memRead_def bsl_memWrite_def memRead_loop.simps memWrite_loop.simps)

theorem bsl_mem_zero_bytes_witness:
  "fd (mock []) \<noteq> 0
   \<and> bsl_memRead (mock []) 0x8000 0 [0x01, 0x02, 0x03] = Some (Inr ([0x01, 0x02, 0x03], mock []))
   \<and> bsl_memWrite (mock []) 0x8000 0 [0x01, 0x02, 0x03] 1 = Some (Inr ((), mock []))"
proof -
  have o: "fd (mock []) \<noteq> 0"
    by (simp add: mock_def)
  from bsl_mem_zero_bytes [OF o] o show ?thesis
    by simp
qed

end
